theory Spec2Isabelle
  imports Complex_Main
begin

section \<open>Geometry utilities of the tile layout (frontend/faraday/lib/utils.ts)\<close>

text \<open>
  The source computes with JavaScript numbers. They are modelled as exact real
  numbers: the theorems below are about the arithmetic the code writes down,
  without the rounding of IEEE doubles, and without NaN or the infinities.
  An optional argument (\<^verbatim>\<open>dimensions?\<close>, \<^verbatim>\<open>offset?: XYCoord | null\<close>) is an
  \<open>option\<close>; the result \<^verbatim>\<open>undefined\<close> is \<open>None\<close>.
\<close>

record Dimensions =
  width :: real
  height :: real
  left :: real
  top' :: real




datatype FlexDirection = Row | Column

fun reverseFlexDirection :: "FlexDirection \<Rightarrow> FlexDirection" where
  "reverseFlexDirection flexDirection =
     (if flexDirection = Row then Column else Row)"


text \<open>
  \<^verbatim>\<open>setTransform({ top, left, width, height }, setSize = true)\<close>. The template
  literals turn a number into text with the language's own conversion, which is
  the parameter \<open>numberToString\<close>. The parameter \<^verbatim>\<open>setSize\<close> has a default:
  it is an \<open>option\<close>, and \<open>None\<close> (argument left out) stands for \<^verbatim>\<open>true\<close>.
  A property that is \<^verbatim>\<open>undefined\<close> in the returned object is \<open>None\<close>.
\<close>

record CSSProperties =
  css_top :: int
  css_left :: int
  transform :: string
  WebkitTransform :: string
  MozTransform :: string
  msTransform :: string
  OTransform :: string
  css_width :: "string option"
  css_height :: "string option"
  position :: string

definition setTransform ::
  "(real \<Rightarrow> string) \<Rightarrow> Dimensions \<Rightarrow> bool option \<Rightarrow> CSSProperties" where
  "setTransform numberToString dims setSizeArg =
     (let setSize = (case setSizeArg of None \<Rightarrow> True | Some b \<Rightarrow> b);
          translate = ''translate('' @ numberToString (left dims) @ ''px,''
                        @ numberToString (top' dims) @ ''px)''
      in \<lparr>css_top = 0,
          css_left = 0,
          transform = translate,
          WebkitTransform = translate,
          MozTransform = translate,
          msTransform = translate,
          OTransform = translate,
          css_width = (if setSize then Some (numberToString (width dims) @ ''px'') else None),
          css_height = (if setSize then Some (numberToString (height dims) @ ''px'') else None),
          position = ''absolute''\<rparr>)"

subsection \<open>debounce\<close>

text \<open>
  \<^verbatim>\<open>debounce(callback, waitFor)\<close> returns a closure over the variable
  \<^verbatim>\<open>timeout\<close>; each call of the closure declares a fresh local \<^verbatim>\<open>result\<close>,
  which the function handed to \<^verbatim>\<open>setTimeout\<close> captures and assigns later.
  The model keeps these in an explicit state: the variable \<^verbatim>\<open>timeout\<close>, the
  timers the host holds pending, and one store cell for the \<^verbatim>\<open>result\<close> of
  each call. \<^verbatim>\<open>setTimeout\<close> registers a timer and returns its handle, without
  calling the function; \<^verbatim>\<open>clearTimeout\<close> drops the timer with that handle
  (and does nothing for \<^verbatim>\<open>undefined\<close>); the host fires a pending timer
  between two runs of program code, never inside one.
\<close>

datatype 'r jsval = Undefined | Value 'r

record 'a timer =
  handle :: nat
  delay :: real
  capturedArgs :: 'a
  capturedResult :: nat

record ('a, 'r) env =
  timeout :: "nat option"
  pending :: "'a timer list"
  nextHandle :: nat
  resultCells :: "'r jsval list"

definition clearTimeout :: "nat option \<Rightarrow> ('a, 'r) env \<Rightarrow> ('a, 'r) env" where
  "clearTimeout t e =
     (case t of None \<Rightarrow> e
      | Some h \<Rightarrow> e\<lparr>pending := filter (\<lambda>tm. handle tm \<noteq> h) (pending e)\<rparr>)"

definition setTimeout :: "'a \<Rightarrow> nat \<Rightarrow> real \<Rightarrow> ('a, 'r) env \<Rightarrow> nat \<times> ('a, 'r) env" where
  "setTimeout args cell ms e =
     (nextHandle e,
      e\<lparr>pending := pending e @
            [\<lparr>handle = nextHandle e, delay = ms, capturedArgs = args, capturedResult = cell\<rparr>],
        nextHandle := Suc (nextHandle e)\<rparr>)"

text \<open>
  One call of the closure that \<^verbatim>\<open>debounce(callback, waitFor)\<close> returned, with
  arguments \<open>args\<close>: the value returned to the caller and the state afterwards.
\<close>

definition debounce ::
  "('a \<Rightarrow> 'r) \<Rightarrow> real \<Rightarrow> 'a \<Rightarrow> ('a, 'r) env \<Rightarrow> 'r jsval \<times> ('a, 'r) env" where
  "debounce callback waitFor args e =
     (let cell = length (resultCells e);
          e1 = e\<lparr>resultCells := resultCells e @ [Undefined]\<rparr>;
          e2 = clearTimeout (timeout e1) e1;
          (h, e3) = setTimeout args cell waitFor e2;
          e4 = e3\<lparr>timeout := Some h\<rparr>
      in (resultCells e4 ! cell, e4))"

text \<open>
  The host fires the pending timer with handle \<open>h\<close> (if there is one): the
  timer leaves the pending list and its function runs
  \<^verbatim>\<open>result = callback(...args)\<close> on the cell it captured.
\<close>

definition fire :: "('a \<Rightarrow> 'r) \<Rightarrow> nat \<Rightarrow> ('a, 'r) env \<Rightarrow> ('a, 'r) env" where
  "fire callback h e =
     (case filter (\<lambda>tm. handle tm = h) (pending e) of
        [] \<Rightarrow> e
      | tm # _ \<Rightarrow>
          e\<lparr>pending := filter (\<lambda>tm. handle tm \<noteq> h) (pending e),
            resultCells := (resultCells e)[capturedResult tm := Value (callback (capturedArgs tm))]\<rparr>)"

datatype 'a event = Invoke 'a | Fire nat

fun isInvoke :: "'a event \<Rightarrow> bool" where
  "isInvoke (Invoke _) = True"
| "isInvoke (Fire _) = False"

text \<open>
  A history of the closure: calls with arguments, and timers firing in between,
  in any order. \<open>run\<close> collects what each call returned to its caller.
\<close>

fun run ::
  "('a \<Rightarrow> 'r) \<Rightarrow> real \<Rightarrow> 'a event list \<Rightarrow> ('a, 'r) env \<Rightarrow> 'r jsval list \<times> ('a, 'r) env" where
  "run callback waitFor [] e = ([], e)"
| "run callback waitFor (Invoke args # evs) e =
     (let (v, e') = debounce callback waitFor args e;
          (vs, e'') = run callback waitFor evs e'
      in (v # vs, e''))"
| "run callback waitFor (Fire h # evs) e = run callback waitFor evs (fire callback h e)"

definition initialEnv :: "('a, 'r) env" where
  "initialEnv = \<lparr>timeout = None, pending = [], nextHandle = 0, resultCells = []\<rparr>"

section \<open>The overlay drop target (frontend/layout/lib/TileLayout.tsx)\<close>

text \<open>
  \<^verbatim>\<open>canDrop\<close> of the drop target that \<^verbatim>\<open>OverlayNode\<close> registers. Of a layout
  node the predicate reads the \<^verbatim>\<open>id\<close> only, so the record has this field
  alone. Of the monitor it reads
  \<^verbatim>\<open>isOver({ shallow: true })\<close> and \<^verbatim>\<open>getItem()\<close>, which is \<open>None\<close> when no
  item is dragged. \<^verbatim>\<open>dragItem?.id\<close> is then \<^verbatim>\<open>undefined\<close>, which \<^verbatim>\<open>!==\<close>
  tells apart from every string.
\<close>

record LayoutNode =
  id' :: string

record DropTargetMonitor =
  isOverShallow :: bool
  getItem :: "LayoutNode option"

definition canDrop :: "LayoutNode \<Rightarrow> DropTargetMonitor \<Rightarrow> bool" where
  "canDrop layoutNode monitor =
     (let dragItem = getItem monitor in
      if isOverShallow monitor \<and> map_option id' dragItem \<noteq> Some (id' layoutNode)
      then True
      else False)"


section \<open>Notions of the specification\<close>
















section \<open>Auxiliary facts\<close>























text \<open>
  What each call returns, and that the callback's value reaches the \<^verbatim>\<open>result\<close>
  of a call only when its timer fires.
\<close>

lemma fst_debounce: "fst (debounce callback waitFor args e) = Undefined"
  by (simp add: debounce_def setTimeout_def clearTimeout_def Let_def split: option.split)

lemma fst_run:
  "fst (run callback waitFor evs e) = replicate (length (filter isInvoke evs)) Undefined"
proof (induction evs arbitrary: e)
  case Nil
  show ?case by simp
next
  case (Cons ev evs)
  show ?case
  proof (cases ev)
    case (Invoke args)
    obtain v e' where d: "debounce callback waitFor args e = (v, e')"
      by (cases "debounce callback waitFor args e")
    then have v: "v = Undefined"
      using fst_debounce [of callback waitFor args e] by simp
    obtain vs e'' where r: "run callback waitFor evs e' = (vs, e'')"
      by (cases "run callback waitFor evs e'")
    then have "vs = replicate (length (filter isInvoke evs)) Undefined"
      using Cons.IH [of e'] by simp
    then show ?thesis
      using Invoke d v r by simp
  next
    case (Fire h)
    then show ?thesis
      using Cons.IH [of "fire callback h e"] by simp
  qed
qed

lemma debounce_then_fire:
  assumes "\<forall>tm \<in> set (pending e). handle tm < nextHandle e"
  shows "resultCells (fire callback (nextHandle e) (snd (debounce callback waitFor args e)))
           ! length (resultCells e) = Value (callback args)"
proof -
  have f1: "filter (\<lambda>tm. handle tm = nextHandle e) (pending e) = []"
    using assms by (auto simp: filter_empty_conv)
  have f2: "filter (\<lambda>tm. P tm \<and> handle tm = nextHandle e) (pending e) = []" for P
    using assms by (auto simp: filter_empty_conv)
  show ?thesis
    by (simp add: f1 f2 add: debounce_def setTimeout_def clearTimeout_def fire_def Let_def
        split: option.split)
qed

lemma debounce_initialEnv:
  "debounce callback waitFor args initialEnv =
     (Undefined,
      \<lparr>timeout = Some 0,
        pending = [\<lparr>handle = 0, delay = waitFor, capturedArgs = args, capturedResult = 0\<rparr>],
        nextHandle = 1, resultCells = [Undefined]\<rparr>)"
  by (simp add: debounce_def setTimeout_def clearTimeout_def initialEnv_def)

lemma fire_initialEnv:
  "resultCells (fire callback 0 (snd (debounce callback waitFor args initialEnv)))
     = [Value (callback args)]"
  by (simp add: debounce_initialEnv fire_def)

section \<open>Drop zone classification\<close>















section \<open>The overlay drop target\<close>

text \<open>
  Claim C7. Whatever the monitor reports, \<^verbatim>\<open>canDrop\<close> of the overlay drop
  target returns true only when the monitor reports a shallow hover and the id
  of the dragged item differs from the id of the hovered node; so a node
  dragged over itself is never accepted.
\<close>

theorem canDrop_only_shallow_hover_other_node:
  assumes "canDrop layoutNode monitor"
  shows "isOverShallow monitor
         \<and> map_option id' (getItem monitor) \<noteq> Some (id' layoutNode)
         \<and> getItem monitor \<noteq> Some layoutNode"
  using assms by (auto simp: canDrop_def split: if_splits)

theorem canDrop_only_shallow_hover_other_node_witness:
  "canDrop \<lparr>id' = ''b''\<rparr> \<lparr>isOverShallow = True, getItem = Some \<lparr>id' = ''a''\<rparr>\<rparr>
   \<and> isOverShallow \<lparr>isOverShallow = True, getItem = Some \<lparr>id' = ''a''\<rparr>\<rparr>
   \<and> getItem \<lparr>isOverShallow = True, getItem = Some \<lparr>id' = ''a''\<rparr>\<rparr>
       \<noteq> Some \<lparr>id' = ''b''\<rparr>"
  using canDrop_only_shallow_hover_other_node
    [of "\<lparr>id' = ''b''\<rparr>" "\<lparr>isOverShallow = True, getItem = Some \<lparr>id' = ''a''\<rparr>\<rparr>"]
  by (simp add: canDrop_def)

section \<open>Placement of a rectangle\<close>

text \<open>
  Claim C8. For every rectangle and every \<^verbatim>\<open>setSize\<close>, \<^verbatim>\<open>setTransform\<close> returns
  a placement with position \<^verbatim>\<open>absolute\<close>, whose transform (under each of its
  five property names) is the translation by \<^verbatim>\<open>left\<close> and \<^verbatim>\<open>top\<close> in px,
  whose \<^verbatim>\<open>top\<close> and \<^verbatim>\<open>left\<close> are 0, and whose \<^verbatim>\<open>width\<close> and \<^verbatim>\<open>height\<close> are
  the rectangle's in px when \<^verbatim>\<open>setSize\<close> is true or left out, and absent when
  it is false. The result is a function of the arguments alone.
\<close>

theorem setTransform_placement:
  "position (setTransform numberToString r setSize) = ''absolute''
   \<and> css_top (setTransform numberToString r setSize) = 0
   \<and> css_left (setTransform numberToString r setSize) = 0
   \<and> transform (setTransform numberToString r setSize)
       = ''translate('' @ numberToString (left r) @ ''px,'' @ numberToString (top' r) @ ''px)''
   \<and> WebkitTransform (setTransform numberToString r setSize)
       = transform (setTransform numberToString r setSize)
   \<and> MozTransform (setTransform numberToString r setSize)
       = transform (setTransform numberToString r setSize)
   \<and> msTransform (setTransform numberToString r setSize)
       = transform (setTransform numberToString r setSize)
   \<and> OTransform (setTransform numberToString r setSize)
       = transform (setTransform numberToString r setSize)
   \<and> css_width (setTransform numberToString r setSize)
       = (if setSize = Some False then None else Some (numberToString (width r) @ ''px''))
   \<and> css_height (setTransform numberToString r setSize)
       = (if setSize = Some False then None else Some (numberToString (height r) @ ''px''))"
  by (cases setSize) (simp_all add: setTransform_def Let_def)

section \<open>The debounced closure\<close>

text \<open>
  Claim C9. For every callback and every wait duration, each call of the
  closure returned by \<^verbatim>\<open>debounce\<close> returns \<^verbatim>\<open>undefined\<close> to its caller,
  whatever the callback returns: in any state a call returns \<^verbatim>\<open>undefined\<close>,
  and so does every call in any history of calls and firing timers.
\<close>

theorem debounce_returns_undefined:
  "fst (debounce callback waitFor args e) = Undefined
   \<and> fst (run callback waitFor evs e) = replicate (length (filter isInvoke evs)) Undefined"
  by (simp add: fst_debounce fst_run)

section \<open>Flex direction\<close>

text \<open>
  Claim C10. \<^verbatim>\<open>reverseFlexDirection\<close> is an involution without a fixed point:
  applied twice to a flex direction it gives the direction back, and applied
  once it never gives the direction back.
\<close>

theorem reverseFlexDirection_involution_no_fixpoint:
  "reverseFlexDirection (reverseFlexDirection d) = d \<and> reverseFlexDirection d \<noteq> d"
  by (cases d) simp_all

end
